theory Spec2Isabelle
  imports Main
begin

section \<open>The Movies API: request and response models\<close>

text \<open>
  The service of \<^verbatim>\<open>3lab/crud.py\<close> exposes the same operations over two tables,
  \<^verbatim>\<open>movies\<close> and \<^verbatim>\<open>genres\<close>. The pydantic models are records; a subclass that adds a
  field is a record extension, and the subclasses \<^verbatim>\<open>MovieCreate\<close> and \<^verbatim>\<open>GenreCreate\<close>, whose
  body is \<^verbatim>\<open>pass\<close>, are synonyms of their base class. Python's \<^verbatim>\<open>int\<close> is unbounded, so ids
  and popularity are of type \<open>int\<close>. The two families share their field names; fields are
  written qualified (\<open>MovieBase.name\<close>, \<open>Genre.id\<close>).
\<close>

record MovieBase =
  name :: string
  description :: string
  popularity :: int

type_synonym MovieCreate = MovieBase

record Movie = MovieBase +
  id :: int

record GenreBase =
  name :: string
  description :: string
  popularity :: int

type_synonym GenreCreate = GenreBase

record Genre = GenreBase +
  id :: int

text \<open>
  A handler either returns its payload or raises. \<^verbatim>\<open>HTTPException(status_code, detail)\<close> is
  the only exception the handlers raise themselves. The exceptions of the database driver
  are not caught and propagate out of the handler: \<^verbatim>\<open>DataError\<close> for an integer argument
  that does not fit its column, \<^verbatim>\<open>CharacterNotInRepertoireError\<close> for a text argument that
  holds the NUL character, \<^verbatim>\<open>SequenceGeneratorLimitExceededError\<close> when the id sequence has
  no value left, and \<^verbatim>\<open>UniqueViolationError\<close> for an id that is already in the table.
\<close>

datatype error =
    HTTPException (status_code: int) (detail: string)
  | DataError
  | CharacterNotInRepertoireError
  | SequenceGeneratorLimitExceededError
  | UniqueViolationError

section \<open>The database\<close>

text \<open>
  Modelled from the spec: the tables \<^verbatim>\<open>movies\<close> and \<^verbatim>\<open>genres\<close>, whose schema is not part of
  the repository. Each has the columns \<^verbatim>\<open>id\<close> (auto-incrementing integer primary key),
  \<^verbatim>\<open>name\<close> (text), \<^verbatim>\<open>description\<close> (text) and \<^verbatim>\<open>popularity\<close> (integer). A table is the list
  of its rows, in the order in which an unconstrained select returns them, together with
  the next value of the sequence that generates its ids. An integer column holds the
  32-bit signed integers, and so does the sequence of the id column; a text column holds
  the strings without the NUL character.
\<close>

definition int4 :: "int \<Rightarrow> bool" where
  "int4 x \<longleftrightarrow> - 2147483648 \<le> x \<and> x \<le> 2147483647"

definition text_ok :: "string \<Rightarrow> bool" where
  "text_ok s \<longleftrightarrow> CHR 0x00 \<notin> set s"

record db_row =
  row_id :: int
  row_name :: string
  row_description :: string
  row_popularity :: int

record table =
  rows :: "db_row list"
  next_id :: int

text \<open>The connection pool held in \<^verbatim>\<open>app.state.pool\<close> gives access to both tables.\<close>

record database =
  movies :: table
  genres :: table

definition ids :: "table \<Rightarrow> int list" where
  "ids t = map row_id (rows t)"

text \<open>
  The primary key: no two rows of a table share an id. The second invariant says that ids
  come from the sequence only, so the sequence is ahead of every id in the table.
\<close>

definition primary_key :: "table \<Rightarrow> bool" where
  "primary_key t = distinct (ids t)"

definition sequence_ahead :: "table \<Rightarrow> bool" where
  "sequence_ahead t = list_all (\<lambda>r. row_id r < next_id t) (rows t)"

subsection \<open>The statements the handlers execute\<close>

text \<open>
  The handlers pass their arguments to the driver as they are. The driver encodes the
  arguments before it sends the statement and raises \<^verbatim>\<open>DataError\<close> for a Python integer
  outside the range of its column. The database then reads the text arguments and
  rejects one that holds NUL. Only after that is the statement executed; a statement that
  raised has changed nothing, except that an insert rejected by the primary key has
  consumed a value of the sequence.
\<close>

text \<open>\<^verbatim>\<open>fetch("SELECT * FROM t")\<close>: all rows.\<close>

definition fetch :: "table \<Rightarrow> db_row list" where
  "fetch t = rows t"

text \<open>\<^verbatim>\<open>fetchrow("SELECT * FROM t WHERE id = $1", id)\<close>: the first matching row, or \<^verbatim>\<open>None\<close>.\<close>

definition fetchrow :: "table \<Rightarrow> int \<Rightarrow> error + db_row option" where
  "fetchrow t id' =
     (if \<not> int4 id' then Inl DataError
      else Inr (find (\<lambda>r. row_id r = id') (rows t)))"

text \<open>
  \<^verbatim>\<open>fetchval("INSERT INTO t (name, description, popularity) VALUES ($1, $2, $3) RETURNING id", ...)\<close>:
  the id is drawn from the sequence, which fails when it has no value of the column's type
  left and otherwise advances whether or not the insert succeeds; the primary key rejects
  an id that is already in the table. The new row is listed after the rows of the table.
\<close>

definition fetchval_insert ::
  "table \<Rightarrow> string \<Rightarrow> string \<Rightarrow> int \<Rightarrow> (error + int) \<times> table" where
  "fetchval_insert t n d p =
     (if \<not> int4 p then (Inl DataError, t)
      else if \<not> (text_ok n \<and> text_ok d) then (Inl CharacterNotInRepertoireError, t)
      else if \<not> int4 (next_id t) then (Inl SequenceGeneratorLimitExceededError, t)
      else
        let new_id = next_id t in
        if new_id \<in> set (ids t)
        then (Inl UniqueViolationError, \<lparr>rows = rows t, next_id = new_id + 1\<rparr>)
        else (Inr new_id,
              \<lparr>rows = rows t @
                 [\<lparr>row_id = new_id, row_name = n, row_description = d, row_popularity = p\<rparr>],
               next_id = new_id + 1\<rparr>))"

text \<open>
  \<^verbatim>\<open>execute\<close> returns the command tag of the statement, the command followed by the number
  of rows it affected, in decimal.
\<close>

definition digit :: "nat \<Rightarrow> char" where
  "digit d = ''0123456789'' ! d"

fun decimal :: "nat \<Rightarrow> string" where
  "decimal n = (if n < 10 then [digit n] else decimal (n div 10) @ [digit (n mod 10)])"

declare decimal.simps [simp del]

definition matching :: "table \<Rightarrow> int \<Rightarrow> nat" where
  "matching t id' = length (filter (\<lambda>r. row_id r = id') (rows t))"

text \<open>
  \<^verbatim>\<open>execute("UPDATE t SET name = $1, description = $2, popularity = $3 WHERE id = $4", ...)\<close>:
  the database writes a new version of each matching row, which an unconstrained select
  lists after the rows that the statement did not touch.
\<close>

definition execute_update ::
  "table \<Rightarrow> string \<Rightarrow> string \<Rightarrow> int \<Rightarrow> int \<Rightarrow> (error + string) \<times> table" where
  "execute_update t n d p id' =
     (if \<not> (int4 p \<and> int4 id') then (Inl DataError, t)
      else if \<not> (text_ok n \<and> text_ok d) then (Inl CharacterNotInRepertoireError, t)
      else
        (Inr (''UPDATE '' @ decimal (matching t id')),
         \<lparr>rows = filter (\<lambda>r. row_id r \<noteq> id') (rows t) @
                  map (\<lambda>r. \<lparr>row_id = row_id r, row_name = n, row_description = d,
                             row_popularity = p\<rparr>)
                      (filter (\<lambda>r. row_id r = id') (rows t)),
          next_id = next_id t\<rparr>))"

text \<open>\<^verbatim>\<open>execute("DELETE FROM t WHERE id = $1", id)\<close>\<close>

definition execute_delete :: "table \<Rightarrow> int \<Rightarrow> (error + string) \<times> table" where
  "execute_delete t id' =
     (if \<not> int4 id' then (Inl DataError, t)
      else
        (Inr (''DELETE '' @ decimal (matching t id')),
         \<lparr>rows = filter (\<lambda>r. row_id r \<noteq> id') (rows t), next_id = next_id t\<rparr>))"

section \<open>The route handlers\<close>

text \<open>
  A handler takes its path and body parameters and the database, and returns what it
  returns or raises together with the database it leaves behind. An exception of the
  driver leaves the handler at the \<^verbatim>\<open>await\<close> that raised it.
\<close>

type_synonym 'a handler = "database \<Rightarrow> (error + 'a) \<times> database"

type_synonym message = "(string \<times> string) list"

definition read_root :: "message handler" where
  "read_root db = (Inr [(''message'', ''Welcome to the Movies API!'')], db)"

subsection \<open>Movies\<close>

definition read_movies :: "Movie list handler" where
  "read_movies db =
     (Inr (map (\<lambda>movie. \<lparr>MovieBase.name = row_name movie,
                           MovieBase.description = row_description movie,
                           MovieBase.popularity = row_popularity movie,
                           Movie.id = row_id movie\<rparr>)
               (fetch (movies db))),
      db)"

text \<open>
  The test \<^verbatim>\<open>if movie:\<close> is on the value of \<^verbatim>\<open>fetchrow\<close>, which is \<^verbatim>\<open>None\<close> or a row of four
  columns; such a row is true in Python, so the test separates \<open>None\<close> from \<open>Some\<close>.
\<close>

definition read_movie :: "int \<Rightarrow> Movie handler" where
  "read_movie id' db =
     (case fetchrow (movies db) id' of
        Inl e \<Rightarrow> (Inl e, db)
      | Inr (Some movie) \<Rightarrow>
          (Inr \<lparr>MovieBase.name = row_name movie,
                MovieBase.description = row_description movie,
                MovieBase.popularity = row_popularity movie,
                Movie.id = row_id movie\<rparr>, db)
      | Inr None \<Rightarrow> (Inl (HTTPException 404 ''Movie not found''), db))"

definition create_movie :: "MovieCreate \<Rightarrow> Movie handler" where
  "create_movie movie db =
     (case fetchval_insert (movies db) (MovieBase.name movie) (MovieBase.description movie)
             (MovieBase.popularity movie) of
        (Inl e, t) \<Rightarrow> (Inl e, db\<lparr>movies := t\<rparr>)
      | (Inr new_movie_id, t) \<Rightarrow>
          (Inr (MovieBase.extend movie (Movie.fields new_movie_id)), db\<lparr>movies := t\<rparr>))"

definition update_movie :: "int \<Rightarrow> MovieCreate \<Rightarrow> Movie handler" where
  "update_movie movie_id updated_movie db =
     (case execute_update (movies db) (MovieBase.name updated_movie)
             (MovieBase.description updated_movie) (MovieBase.popularity updated_movie)
             movie_id of
        (Inl e, t) \<Rightarrow> (Inl e, db\<lparr>movies := t\<rparr>)
      | (Inr result, t) \<Rightarrow>
          if result = ''UPDATE 0''
          then (Inl (HTTPException 404 ''Movie not found''), db\<lparr>movies := t\<rparr>)
          else (Inr (MovieBase.extend updated_movie (Movie.fields movie_id)),
                db\<lparr>movies := t\<rparr>))"

definition delete_movie :: "int \<Rightarrow> message handler" where
  "delete_movie movie_id db =
     (case execute_delete (movies db) movie_id of
        (Inl e, t) \<Rightarrow> (Inl e, db\<lparr>movies := t\<rparr>)
      | (Inr result, t) \<Rightarrow>
          if result = ''DELETE 0''
          then (Inl (HTTPException 404 ''Movie not found''), db\<lparr>movies := t\<rparr>)
          else (Inr [(''message'', ''Movie deleted'')], db\<lparr>movies := t\<rparr>))"

subsection \<open>Genres\<close>

definition read_genres :: "Genre list handler" where
  "read_genres db =
     (Inr (map (\<lambda>genre. \<lparr>GenreBase.name = row_name genre,
                           GenreBase.description = row_description genre,
                           GenreBase.popularity = row_popularity genre,
                           Genre.id = row_id genre\<rparr>)
               (fetch (genres db))),
      db)"

definition read_genre :: "int \<Rightarrow> Genre handler" where
  "read_genre id' db =
     (case fetchrow (genres db) id' of
        Inl e \<Rightarrow> (Inl e, db)
      | Inr (Some genre) \<Rightarrow>
          (Inr \<lparr>GenreBase.name = row_name genre,
                GenreBase.description = row_description genre,
                GenreBase.popularity = row_popularity genre,
                Genre.id = row_id genre\<rparr>, db)
      | Inr None \<Rightarrow> (Inl (HTTPException 404 ''Genre not found''), db))"

definition create_genre :: "GenreCreate \<Rightarrow> Genre handler" where
  "create_genre genre db =
     (case fetchval_insert (genres db) (GenreBase.name genre) (GenreBase.description genre)
             (GenreBase.popularity genre) of
        (Inl e, t) \<Rightarrow> (Inl e, db\<lparr>genres := t\<rparr>)
      | (Inr new_genre_id, t) \<Rightarrow>
          (Inr (GenreBase.extend genre (Genre.fields new_genre_id)), db\<lparr>genres := t\<rparr>))"

definition update_genre :: "int \<Rightarrow> GenreCreate \<Rightarrow> Genre handler" where
  "update_genre genre_id updated_genre db =
     (case execute_update (genres db) (GenreBase.name updated_genre)
             (GenreBase.description updated_genre) (GenreBase.popularity updated_genre)
             genre_id of
        (Inl e, t) \<Rightarrow> (Inl e, db\<lparr>genres := t\<rparr>)
      | (Inr result, t) \<Rightarrow>
          if result = ''UPDATE 0''
          then (Inl (HTTPException 404 ''Genre not found''), db\<lparr>genres := t\<rparr>)
          else (Inr (GenreBase.extend updated_genre (Genre.fields genre_id)),
                db\<lparr>genres := t\<rparr>))"

definition delete_genre :: "int \<Rightarrow> message handler" where
  "delete_genre genre_id db =
     (case execute_delete (genres db) genre_id of
        (Inl e, t) \<Rightarrow> (Inl e, db\<lparr>genres := t\<rparr>)
      | (Inr result, t) \<Rightarrow>
          if result = ''DELETE 0''
          then (Inl (HTTPException 404 ''Genre not found''), db\<lparr>genres := t\<rparr>)
          else (Inr [(''message'', ''Genre deleted'')], db\<lparr>genres := t\<rparr>))"

section \<open>Routing\<close>

text \<open>
  The decorators \<^verbatim>\<open>@app.get\<close>, \<^verbatim>\<open>@app.post\<close>, \<^verbatim>\<open>@app.put\<close> and \<^verbatim>\<open>@app.delete\<close> register eleven
  routes. A request is one of them with its path id and body already parsed; a response
  body is what the handler of the route returns.
\<close>

datatype request =
    GET_root
  | GET_movies
  | GET_movie int
  | POST_movies MovieCreate
  | PUT_movie int MovieCreate
  | DELETE_movie int
  | GET_genres
  | GET_genre int
  | POST_genres GenreCreate
  | PUT_genre int GenreCreate
  | DELETE_genre int

datatype body =
    Message message
  | MovieBody Movie
  | MovieList "Movie list"
  | GenreBody Genre
  | GenreList "Genre list"

definition respond :: "('a \<Rightarrow> body) \<Rightarrow> (error + 'a) \<times> database \<Rightarrow> (error + body) \<times> database" where
  "respond f out = (case out of (Inl e, db) \<Rightarrow> (Inl e, db) | (Inr x, db) \<Rightarrow> (Inr (f x), db))"

fun app :: "request \<Rightarrow> body handler" where
  "app GET_root db = respond Message (read_root db)"
| "app GET_movies db = respond MovieList (read_movies db)"
| "app (GET_movie id') db = respond MovieBody (read_movie id' db)"
| "app (POST_movies movie) db = respond MovieBody (create_movie movie db)"
| "app (PUT_movie movie_id updated_movie) db =
     respond MovieBody (update_movie movie_id updated_movie db)"
| "app (DELETE_movie movie_id) db = respond Message (delete_movie movie_id db)"
| "app GET_genres db = respond GenreList (read_genres db)"
| "app (GET_genre id') db = respond GenreBody (read_genre id' db)"
| "app (POST_genres genre) db = respond GenreBody (create_genre genre db)"
| "app (PUT_genre genre_id updated_genre) db =
     respond GenreBody (update_genre genre_id updated_genre db)"
| "app (DELETE_genre genre_id) db = respond Message (delete_genre genre_id db)"

section \<open>Notions used by the properties\<close>

text \<open>
  The rows of a table that an operation affected: those that are in the table before and
  no longer after (deleted or overwritten), and those that are in it after and were not
  before (inserted or written).
\<close>

definition rows_removed :: "table \<Rightarrow> table \<Rightarrow> db_row list" where
  "rows_removed t t' = filter (\<lambda>r. r \<notin> set (rows t')) (rows t)"

definition rows_added :: "table \<Rightarrow> table \<Rightarrow> db_row list" where
  "rows_added t t' = filter (\<lambda>r. r \<notin> set (rows t)) (rows t')"

definition rows_affected :: "table \<Rightarrow> table \<Rightarrow> nat" where
  "rows_affected t t' = max (length (rows_removed t t')) (length (rows_added t t'))"


text \<open>
  Substituting Genre for Movie. A Movie handler is run on the genres table by exchanging
  the two tables before and after it; its payload is read as a Genre with the same field
  values, and the resource name that starts its messages is replaced.
\<close>

definition exchange :: "database \<Rightarrow> database" where
  "exchange db = \<lparr>movies = genres db, genres = movies db\<rparr>"

definition movie_payload :: "GenreCreate \<Rightarrow> MovieCreate" where
  "movie_payload genre =
     \<lparr>MovieBase.name = GenreBase.name genre,
      MovieBase.description = GenreBase.description genre,
      MovieBase.popularity = GenreBase.popularity genre\<rparr>"

definition as_genre :: "Movie \<Rightarrow> Genre" where
  "as_genre movie =
     \<lparr>GenreBase.name = MovieBase.name movie,
      GenreBase.description = MovieBase.description movie,
      GenreBase.popularity = MovieBase.popularity movie,
      Genre.id = Movie.id movie\<rparr>"

definition genre_text :: "string \<Rightarrow> string" where
  "genre_text s = (if take 5 s = ''Movie'' then ''Genre'' @ drop 5 s else s)"

definition genre_message :: "message \<Rightarrow> message" where
  "genre_message m = map (\<lambda>(k, v). (k, genre_text v)) m"

fun genre_error :: "error \<Rightarrow> error" where
  "genre_error (HTTPException c d) = HTTPException c (genre_text d)"
| "genre_error e = e"

definition substituted :: "('a \<Rightarrow> 'b) \<Rightarrow> (error + 'a) \<times> database \<Rightarrow> (error + 'b) \<times> database" where
  "substituted f out =
     (case out of
        (Inl e, db) \<Rightarrow> (Inl (genre_error e), exchange db)
      | (Inr x, db) \<Rightarrow> (Inr (f x), exchange db))"

text \<open>
  The database of the scenarios of the specification after the first request: the movie
  Dune with id 1, and no genre.
\<close>

definition dune_db :: database where
  "dune_db =
     \<lparr>movies = \<lparr>rows = [\<lparr>row_id = 1, row_name = ''Dune'', row_description = ''Sci-fi epic'',
                          row_popularity = 95\<rparr>],
                 next_id = 2\<rparr>,
      genres = \<lparr>rows = [], next_id = 1\<rparr>\<rparr>"

definition dune :: MovieCreate where
  "dune = \<lparr>MovieBase.name = ''Dune'', MovieBase.description = ''Updated'',
           MovieBase.popularity = 98\<rparr>"

definition drama :: GenreCreate where
  "drama = \<lparr>GenreBase.name = ''Drama'', GenreBase.description = ''Serious'',
            GenreBase.popularity = 7\<rparr>"

text \<open>The same database with one genre in it.\<close>

definition drama_db :: database where
  "drama_db =
     \<lparr>movies = movies dune_db,
      genres = \<lparr>rows = [\<lparr>row_id = 1, row_name = ''Drama'', row_description = ''Serious'',
                          row_popularity = 7\<rparr>],
                 next_id = 2\<rparr>\<rparr>"

text \<open>
  A payload that the database accepts: its popularity fits the integer column and its
  texts hold no NUL.
\<close>

definition movie_accepted :: "MovieCreate \<Rightarrow> bool" where
  "movie_accepted movie \<longleftrightarrow>
     int4 (MovieBase.popularity movie) \<and> text_ok (MovieBase.name movie) \<and>
     text_ok (MovieBase.description movie)"

definition genre_accepted :: "GenreCreate \<Rightarrow> bool" where
  "genre_accepted genre \<longleftrightarrow>
     int4 (GenreBase.popularity genre) \<and> text_ok (GenreBase.name genre) \<and>
     text_ok (GenreBase.description genre)"



text \<open>Both invariants, on both tables.\<close>

definition invariant :: "database \<Rightarrow> bool" where
  "invariant db \<longleftrightarrow>
     primary_key (movies db) \<and> sequence_ahead (movies db) \<and>
     primary_key (genres db) \<and> sequence_ahead (genres db)"

section \<open>Properties\<close>

subsection \<open>The command tag and the presence of an id\<close>

lemma decimal_nonempty: "decimal n \<noteq> []"
  by (subst decimal.simps) simp

lemma digit_zero_iff: "d < 10 \<Longrightarrow> digit d = CHR ''0'' \<longleftrightarrow> d = 0"
proof -
  assume "d < 10"
  then have "d \<in> {0, 1, 2, 3, 4, 5, 6, 7, 8, 9}" by auto
  then show ?thesis by (auto simp: digit_def)
qed

lemma decimal_zero_iff: "decimal n = ''0'' \<longleftrightarrow> n = 0"
proof (cases "n < 10")
  case True
  then show ?thesis by (subst decimal.simps) (simp add: digit_zero_iff)
next
  case False
  have "decimal n = decimal (n div 10) @ [digit (n mod 10)]"
    using False by (subst decimal.simps) simp
  moreover have "decimal (n div 10) \<noteq> []" by (rule decimal_nonempty)
  ultimately have "length (decimal n) \<ge> 2"
    by (cases "decimal (n div 10)") auto
  with False show ?thesis by auto
qed

lemma matching_zero_iff: "matching t k = 0 \<longleftrightarrow> k \<notin> set (ids t)"
  by (auto simp: matching_def ids_def filter_empty_conv)

lemma fetchrow_absent: "int4 k \<Longrightarrow> k \<notin> set (ids t) \<Longrightarrow> fetchrow t k = Inr None"
  by (auto simp: fetchrow_def ids_def find_None_iff)

lemma fetchrow_out_of_range: "\<not> int4 k \<Longrightarrow> fetchrow t k = Inl DataError"
  by (simp add: fetchrow_def)

lemma ids_update:
  "ids (snd (execute_update t n d p k)) =
     (if int4 p \<and> int4 k \<and> text_ok n \<and> text_ok d
      then filter (\<lambda>i. i \<noteq> k) (ids t) @ filter (\<lambda>i. i = k) (ids t)
      else ids t)"
  by (simp add: execute_update_def ids_def filter_map comp_def)

lemma set_ids_update [simp]: "set (ids (snd (execute_update t n d p k))) = set (ids t)"
  by (auto simp: ids_update)

lemma ids_delete: "ids (snd (execute_delete t k)) = (if int4 k then filter (\<lambda>i. i \<noteq> k) (ids t) else ids t)"
  by (simp add: execute_delete_def ids_def filter_map comp_def)

lemma next_id_update [simp]: "next_id (snd (execute_update t n d p k)) = next_id t"
  by (simp add: execute_update_def)

lemma next_id_delete [simp]: "next_id (snd (execute_delete t k)) = next_id t"
  by (simp add: execute_delete_def)

lemma read_movie_eq:
  "read_movie k db =
     (if \<not> int4 k then (Inl DataError, db)
      else case find (\<lambda>r. row_id r = k) (rows (movies db)) of
        None \<Rightarrow> (Inl (HTTPException 404 ''Movie not found''), db)
      | Some movie \<Rightarrow>
          (Inr \<lparr>MovieBase.name = row_name movie,
                MovieBase.description = row_description movie,
                MovieBase.popularity = row_popularity movie,
                Movie.id = row_id movie\<rparr>, db))"
  by (simp add: read_movie_def fetchrow_def split: option.splits)

lemma read_genre_eq:
  "read_genre k db =
     (if \<not> int4 k then (Inl DataError, db)
      else case find (\<lambda>r. row_id r = k) (rows (genres db)) of
        None \<Rightarrow> (Inl (HTTPException 404 ''Genre not found''), db)
      | Some genre \<Rightarrow>
          (Inr \<lparr>GenreBase.name = row_name genre,
                GenreBase.description = row_description genre,
                GenreBase.popularity = row_popularity genre,
                Genre.id = row_id genre\<rparr>, db))"
  by (simp add: read_genre_def fetchrow_def split: option.splits)

lemma update_movie_eq:
  "update_movie k u db =
     (if \<not> (int4 (MovieBase.popularity u) \<and> int4 k) then (Inl DataError, db)
      else if \<not> (text_ok (MovieBase.name u) \<and> text_ok (MovieBase.description u))
      then (Inl CharacterNotInRepertoireError, db)
      else
        (if k \<in> set (ids (movies db))
         then Inr (MovieBase.extend u (Movie.fields k))
         else Inl (HTTPException 404 ''Movie not found''),
         db\<lparr>movies := snd (execute_update (movies db) (MovieBase.name u)
            (MovieBase.description u) (MovieBase.popularity u) k)\<rparr>))"
  by (simp add: update_movie_def execute_update_def decimal_zero_iff matching_zero_iff)

lemma update_genre_eq:
  "update_genre k u db =
     (if \<not> (int4 (GenreBase.popularity u) \<and> int4 k) then (Inl DataError, db)
      else if \<not> (text_ok (GenreBase.name u) \<and> text_ok (GenreBase.description u))
      then (Inl CharacterNotInRepertoireError, db)
      else
        (if k \<in> set (ids (genres db))
         then Inr (GenreBase.extend u (Genre.fields k))
         else Inl (HTTPException 404 ''Genre not found''),
         db\<lparr>genres := snd (execute_update (genres db) (GenreBase.name u)
            (GenreBase.description u) (GenreBase.popularity u) k)\<rparr>))"
  by (simp add: update_genre_def execute_update_def decimal_zero_iff matching_zero_iff)

lemma delete_movie_eq:
  "delete_movie k db =
     (if \<not> int4 k then (Inl DataError, db)
      else
        (if k \<in> set (ids (movies db))
         then Inr [(''message'', ''Movie deleted'')]
         else Inl (HTTPException 404 ''Movie not found''),
         db\<lparr>movies := snd (execute_delete (movies db) k)\<rparr>))"
  by (simp add: delete_movie_def execute_delete_def decimal_zero_iff matching_zero_iff)

lemma delete_genre_eq:
  "delete_genre k db =
     (if \<not> int4 k then (Inl DataError, db)
      else
        (if k \<in> set (ids (genres db))
         then Inr [(''message'', ''Genre deleted'')]
         else Inl (HTTPException 404 ''Genre not found''),
         db\<lparr>genres := snd (execute_delete (genres db) k)\<rparr>))"
  by (simp add: delete_genre_def execute_delete_def decimal_zero_iff matching_zero_iff)

lemma find_absent: "k \<notin> set (ids t) \<Longrightarrow> find (\<lambda>r. row_id r = k) (rows t) = None"
  by (auto simp: ids_def find_None_iff)

text \<open>
  C1, as amended. For every id that fits the id column and is not in the resource's table,
  get-by-id and delete raise the HTTP exception with status 404 and the detail "Movie not
  found" (for the genre routes "Genre not found"), and so does update when its payload is
  one that the database accepts. For an id that does not fit the id column, the three
  operations raise the driver's \<^verbatim>\<open>DataError\<close> instead.
\<close>

theorem not_found_404:
  "(int4 id' \<and> id' \<notin> set (ids (movies db)) \<longrightarrow>
      fst (read_movie id' db) = Inl (HTTPException 404 ''Movie not found'') \<and>
      (movie_accepted updated_movie \<longrightarrow>
         fst (update_movie id' updated_movie db) =
           Inl (HTTPException 404 ''Movie not found'')) \<and>
      fst (delete_movie id' db) = Inl (HTTPException 404 ''Movie not found'')) \<and>
   (int4 id' \<and> id' \<notin> set (ids (genres db)) \<longrightarrow>
      fst (read_genre id' db) = Inl (HTTPException 404 ''Genre not found'') \<and>
      (genre_accepted updated_genre \<longrightarrow>
         fst (update_genre id' updated_genre db) =
           Inl (HTTPException 404 ''Genre not found'')) \<and>
      fst (delete_genre id' db) = Inl (HTTPException 404 ''Genre not found'')) \<and>
   (\<not> int4 id' \<longrightarrow>
      fst (read_movie id' db) = Inl DataError \<and>
      fst (update_movie id' updated_movie db) = Inl DataError \<and>
      fst (delete_movie id' db) = Inl DataError \<and>
      fst (read_genre id' db) = Inl DataError \<and>
      fst (update_genre id' updated_genre db) = Inl DataError \<and>
      fst (delete_genre id' db) = Inl DataError)"
  by (simp add: read_movie_eq read_genre_eq find_absent update_movie_eq update_genre_eq
      delete_movie_eq delete_genre_eq movie_accepted_def genre_accepted_def)

theorem not_found_404_witness:
  "int4 999 \<and> 999 \<notin> set (ids (movies dune_db)) \<and> 999 \<notin> set (ids (genres dune_db)) \<and>
   movie_accepted dune \<and> genre_accepted drama \<and>
   fst (read_movie 999 dune_db) = Inl (HTTPException 404 ''Movie not found'') \<and>
   fst (update_movie 999 dune dune_db) = Inl (HTTPException 404 ''Movie not found'') \<and>
   fst (delete_movie 999 dune_db) = Inl (HTTPException 404 ''Movie not found'') \<and>
   fst (read_genre 999 dune_db) = Inl (HTTPException 404 ''Genre not found'') \<and>
   fst (update_genre 999 drama dune_db) = Inl (HTTPException 404 ''Genre not found'') \<and>
   fst (delete_genre 999 dune_db) = Inl (HTTPException 404 ''Genre not found'') \<and>
   \<not> int4 2147483648 \<and> fst (delete_movie 2147483648 dune_db) = Inl DataError"
proof -
  have r: "int4 999" "\<not> int4 2147483648" by (simp_all add: int4_def)
  have m: "999 \<notin> set (ids (movies dune_db))" by (simp add: dune_db_def ids_def)
  have g: "999 \<notin> set (ids (genres dune_db))" by (simp add: dune_db_def ids_def)
  have a: "movie_accepted dune" "genre_accepted drama"
    by (simp_all add: movie_accepted_def genre_accepted_def dune_def drama_def int4_def
        text_ok_def)
  show ?thesis
    using r m g a not_found_404 [of 999 dune_db dune drama]
      not_found_404 [of 2147483648 dune_db dune drama]
    by simp
qed

text \<open>
  The claim as it was stated fails: 2147483648 is the id of no movie, and get-by-id,
  update and delete of it do not raise the 404 exception.
\<close>

theorem not_found_404_counterexample:
  "2147483648 \<notin> set (ids (movies dune_db)) \<and>
   fst (read_movie 2147483648 dune_db) \<noteq> Inl (HTTPException 404 ''Movie not found'') \<and>
   fst (update_movie 2147483648 dune dune_db) \<noteq> Inl (HTTPException 404 ''Movie not found'') \<and>
   fst (delete_movie 2147483648 dune_db) \<noteq> Inl (HTTPException 404 ''Movie not found'')"
  by (simp add: read_movie_eq update_movie_eq delete_movie_eq int4_def dune_db_def ids_def)

subsection \<open>The invariants of a table\<close>

lemma primary_key_insert: "primary_key t \<Longrightarrow> primary_key (snd (fetchval_insert t n d p))"
  by (simp add: primary_key_def fetchval_insert_def Let_def ids_def)

lemma primary_key_update: "primary_key t \<Longrightarrow> primary_key (snd (execute_update t n d p k))"
  by (auto simp: primary_key_def ids_update)

lemma primary_key_delete: "primary_key t \<Longrightarrow> primary_key (snd (execute_delete t k))"
  by (simp add: primary_key_def ids_delete)

lemma sequence_ahead_insert:
  "sequence_ahead t \<Longrightarrow> sequence_ahead (snd (fetchval_insert t n d p))"
  by (auto simp: sequence_ahead_def fetchval_insert_def Let_def list_all_iff)

lemma sequence_ahead_iff: "sequence_ahead t \<longleftrightarrow> (\<forall>i \<in> set (ids t). i < next_id t)"
  by (auto simp: sequence_ahead_def ids_def list_all_iff)

lemma sequence_ahead_update:
  "sequence_ahead t \<Longrightarrow> sequence_ahead (snd (execute_update t n d p k))"
  by (simp add: sequence_ahead_iff)

lemma sequence_ahead_delete: "sequence_ahead t \<Longrightarrow> sequence_ahead (snd (execute_delete t k))"
  by (simp add: sequence_ahead_iff ids_delete)


lemma snd_respond [simp]: "snd (respond f out) = snd out"
  by (simp add: respond_def split: prod.splits sum.splits)

lemma snd_create_movie:
  "snd (create_movie movie db) =
   db\<lparr>movies := snd (fetchval_insert (movies db) (MovieBase.name movie)
     (MovieBase.description movie) (MovieBase.popularity movie))\<rparr>"
  by (simp add: create_movie_def split: prod.splits sum.splits)

lemma snd_create_genre:
  "snd (create_genre genre db) =
   db\<lparr>genres := snd (fetchval_insert (genres db) (GenreBase.name genre)
     (GenreBase.description genre) (GenreBase.popularity genre))\<rparr>"
  by (simp add: create_genre_def split: prod.splits sum.splits)

lemmas snd_handlers =
  read_root_def read_movies_def read_movie_eq read_genres_def read_genre_eq
  snd_create_movie snd_create_genre update_movie_eq update_genre_eq delete_movie_eq
  delete_genre_eq

lemma invariant_preserved: "invariant db \<Longrightarrow> invariant (snd (app req db))"
  by (cases req)
    (simp_all add: invariant_def snd_handlers primary_key_insert primary_key_update
      primary_key_delete sequence_ahead_insert sequence_ahead_update sequence_ahead_delete
      split: option.splits)

lemma invariant_initially:
  "invariant \<lparr>movies = \<lparr>rows = [], next_id = 1\<rparr>, genres = \<lparr>rows = [], next_id = 1\<rparr>\<rparr>"
  by (simp add: invariant_def primary_key_def sequence_ahead_def ids_def)







subsection \<open>Create\<close>


lemma insert_returns:
  "fetchval_insert t n d p = (Inr k, t') \<Longrightarrow>
   int4 k \<and> k \<notin> set (ids t) \<and>
   rows t' = rows t @ [\<lparr>row_id = k, row_name = n, row_description = d, row_popularity = p\<rparr>]"
  by (auto simp: fetchval_insert_def Let_def split: if_splits)

lemma insert_fails: "fetchval_insert t n d p = (Inl e, t') \<Longrightarrow> genre_error e = e"
  by (auto simp: fetchval_insert_def Let_def split: if_splits)

lemma find_snoc:
  "find P (xs @ [x]) = (case find P xs of None \<Rightarrow> if P x then Some x else None | Some y \<Rightarrow> Some y)"
  by (induction xs) simp_all

lemma find_appended:
  "k \<notin> set (ids t) \<Longrightarrow> row_id r = k \<Longrightarrow> rows t' = rows t @ [r] \<Longrightarrow>
   find (\<lambda>r. row_id r = k) (rows t') = Some r"
  using find_absent [of k t] by (simp add: find_snoc)



text \<open>
  C3. When create returns an object, a get-by-id for the id of that object, on the
  database that create left, returns the same object, for movies and for genres.
\<close>

theorem read_after_create:
  "(fst (create_movie movie db) = Inr created \<longrightarrow>
      read_movie (Movie.id created) (snd (create_movie movie db)) =
        (Inr created, snd (create_movie movie db))) \<and>
   (fst (create_genre genre db) = Inr created_genre \<longrightarrow>
      read_genre (Genre.id created_genre) (snd (create_genre genre db)) =
        (Inr created_genre, snd (create_genre genre db)))"
proof (intro conjI impI)
  assume a: "fst (create_movie movie db) = Inr created"
  obtain res t where i: "fetchval_insert (movies db) (MovieBase.name movie)
      (MovieBase.description movie) (MovieBase.popularity movie) = (res, t)"
    by (cases "fetchval_insert (movies db) (MovieBase.name movie)
      (MovieBase.description movie) (MovieBase.popularity movie)")
  from a i obtain k where k: "res = Inr k"
    and c: "created = MovieBase.extend movie (Movie.fields k)"
    by (cases res) (auto simp: create_movie_def)
  from i k have s: "snd (create_movie movie db) = db\<lparr>movies := t\<rparr>"
    by (simp add: create_movie_def)
  from insert_returns [OF i [unfolded k]]
  have "int4 k" and "k \<notin> set (ids (movies db))"
    and "rows t = rows (movies db) @ [\<lparr>row_id = k, row_name = MovieBase.name movie,
      row_description = MovieBase.description movie,
      row_popularity = MovieBase.popularity movie\<rparr>]"
    by blast+
  then have "int4 k \<and> find (\<lambda>r. row_id r = k) (rows t) =
      Some \<lparr>row_id = k, row_name = MovieBase.name movie,
      row_description = MovieBase.description movie,
      row_popularity = MovieBase.popularity movie\<rparr>"
    by (intro conjI find_appended [of k "movies db"]) simp_all
  then show "read_movie (Movie.id created) (snd (create_movie movie db)) =
        (Inr created, snd (create_movie movie db))"
    by (simp add: s c read_movie_eq MovieBase.defs Movie.defs)
next
  assume a: "fst (create_genre genre db) = Inr created_genre"
  obtain res t where i: "fetchval_insert (genres db) (GenreBase.name genre)
      (GenreBase.description genre) (GenreBase.popularity genre) = (res, t)"
    by (cases "fetchval_insert (genres db) (GenreBase.name genre)
      (GenreBase.description genre) (GenreBase.popularity genre)")
  from a i obtain k where k: "res = Inr k"
    and c: "created_genre = GenreBase.extend genre (Genre.fields k)"
    by (cases res) (auto simp: create_genre_def)
  from i k have s: "snd (create_genre genre db) = db\<lparr>genres := t\<rparr>"
    by (simp add: create_genre_def)
  from insert_returns [OF i [unfolded k]]
  have "int4 k" and "k \<notin> set (ids (genres db))"
    and "rows t = rows (genres db) @ [\<lparr>row_id = k, row_name = GenreBase.name genre,
      row_description = GenreBase.description genre,
      row_popularity = GenreBase.popularity genre\<rparr>]"
    by blast+
  then have "int4 k \<and> find (\<lambda>r. row_id r = k) (rows t) =
      Some \<lparr>row_id = k, row_name = GenreBase.name genre,
      row_description = GenreBase.description genre,
      row_popularity = GenreBase.popularity genre\<rparr>"
    by (intro conjI find_appended [of k "genres db"]) simp_all
  then show "read_genre (Genre.id created_genre) (snd (create_genre genre db)) =
        (Inr created_genre, snd (create_genre genre db))"
    by (simp add: s c read_genre_eq GenreBase.defs Genre.defs)
qed

theorem read_after_create_witness:
  "fst (create_movie dune dune_db) =
     Inr \<lparr>MovieBase.name = ''Dune'', MovieBase.description = ''Updated'',
          MovieBase.popularity = 98, Movie.id = 2\<rparr> \<and>
   fst (read_movie 2 (snd (create_movie dune dune_db))) =
     Inr \<lparr>MovieBase.name = ''Dune'', MovieBase.description = ''Updated'',
          MovieBase.popularity = 98, Movie.id = 2\<rparr> \<and>
   fst (create_genre drama dune_db) =
     Inr \<lparr>GenreBase.name = ''Drama'', GenreBase.description = ''Serious'',
          GenreBase.popularity = 7, Genre.id = 1\<rparr> \<and>
   fst (read_genre 1 (snd (create_genre drama dune_db))) =
     Inr \<lparr>GenreBase.name = ''Drama'', GenreBase.description = ''Serious'',
          GenreBase.popularity = 7, Genre.id = 1\<rparr>"
proof -
  have m: "fst (create_movie dune dune_db) =
     Inr \<lparr>MovieBase.name = ''Dune'', MovieBase.description = ''Updated'',
          MovieBase.popularity = 98, Movie.id = 2\<rparr>"
    by (simp add: dune_def create_movie_def fetchval_insert_def ids_def dune_db_def
        int4_def text_ok_def MovieBase.defs Movie.defs)
  have g: "fst (create_genre drama dune_db) =
     Inr \<lparr>GenreBase.name = ''Drama'', GenreBase.description = ''Serious'',
          GenreBase.popularity = 7, Genre.id = 1\<rparr>"
    by (simp add: drama_def create_genre_def fetchval_insert_def ids_def dune_db_def
        int4_def text_ok_def GenreBase.defs Genre.defs)
  show ?thesis
    using m g
      read_after_create [of dune dune_db
        "\<lparr>MovieBase.name = ''Dune'', MovieBase.description = ''Updated'',
          MovieBase.popularity = 98, Movie.id = 2\<rparr>"
        drama
        "\<lparr>GenreBase.name = ''Drama'', GenreBase.description = ''Serious'',
          GenreBase.popularity = 7, Genre.id = 1\<rparr>"]
    by simp
qed

subsection \<open>Update\<close>

text \<open>
  C4. For every id in the table and every payload, an update that succeeds returns the
  object made of the path id and the submitted name, description and popularity, whatever
  the rows of the table hold; and the update does succeed when the id fits its column and
  the database accepts the payload.
\<close>

theorem update_returns_input:
  "(movie_id \<in> set (ids (movies db)) \<longrightarrow>
      (fst (update_movie movie_id updated_movie db) = Inr returned \<longrightarrow>
         returned =
           \<lparr>MovieBase.name = MovieBase.name updated_movie,
            MovieBase.description = MovieBase.description updated_movie,
            MovieBase.popularity = MovieBase.popularity updated_movie,
            Movie.id = movie_id\<rparr>) \<and>
      (int4 movie_id \<and> movie_accepted updated_movie \<longrightarrow>
         fst (update_movie movie_id updated_movie db) =
           Inr \<lparr>MovieBase.name = MovieBase.name updated_movie,
                MovieBase.description = MovieBase.description updated_movie,
                MovieBase.popularity = MovieBase.popularity updated_movie,
                Movie.id = movie_id\<rparr>)) \<and>
   (genre_id \<in> set (ids (genres db)) \<longrightarrow>
      (fst (update_genre genre_id updated_genre db) = Inr returned_genre \<longrightarrow>
         returned_genre =
           \<lparr>GenreBase.name = GenreBase.name updated_genre,
            GenreBase.description = GenreBase.description updated_genre,
            GenreBase.popularity = GenreBase.popularity updated_genre,
            Genre.id = genre_id\<rparr>) \<and>
      (int4 genre_id \<and> genre_accepted updated_genre \<longrightarrow>
         fst (update_genre genre_id updated_genre db) =
           Inr \<lparr>GenreBase.name = GenreBase.name updated_genre,
                GenreBase.description = GenreBase.description updated_genre,
                GenreBase.popularity = GenreBase.popularity updated_genre,
                Genre.id = genre_id\<rparr>))"
  by (auto simp: update_movie_eq update_genre_eq movie_accepted_def genre_accepted_def
      MovieBase.defs Movie.defs GenreBase.defs Genre.defs split: if_splits)

theorem update_returns_input_witness:
  "1 \<in> set (ids (movies drama_db)) \<and> int4 1 \<and> movie_accepted dune \<and>
   fst (update_movie 1 dune drama_db) =
     Inr \<lparr>MovieBase.name = ''Dune'', MovieBase.description = ''Updated'',
          MovieBase.popularity = 98, Movie.id = 1\<rparr> \<and>
   1 \<in> set (ids (genres drama_db)) \<and> genre_accepted drama \<and>
   fst (update_genre 1 drama drama_db) =
     Inr \<lparr>GenreBase.name = ''Drama'', GenreBase.description = ''Serious'',
          GenreBase.popularity = 7, Genre.id = 1\<rparr>"
proof -
  have m: "1 \<in> set (ids (movies drama_db))" by (simp add: drama_db_def dune_db_def ids_def)
  have g: "1 \<in> set (ids (genres drama_db))" by (simp add: drama_db_def ids_def)
  have i: "int4 1" by (simp add: int4_def)
  have a: "movie_accepted dune" "genre_accepted drama"
    by (simp_all add: movie_accepted_def genre_accepted_def dune_def drama_def int4_def
        text_ok_def)
  show ?thesis
    using m g i a
      update_returns_input [where movie_id = 1 and genre_id = 1 and db = drama_db
        and updated_movie = dune and updated_genre = drama
        and returned = "\<lparr>MovieBase.name = ''Dune'', MovieBase.description = ''Updated'',
          MovieBase.popularity = 98, Movie.id = 1\<rparr>"
        and returned_genre = "\<lparr>GenreBase.name = ''Drama'',
          GenreBase.description = ''Serious'', GenreBase.popularity = 7, Genre.id = 1\<rparr>"]
    by (simp add: dune_def drama_def)
qed

lemma execute_update_twice:
  "snd (execute_update (snd (execute_update t n d p k)) n d p k) =
   snd (execute_update t n d p k)"
  by (simp add: execute_update_def filter_map comp_def)

text \<open>
  C5. Update is idempotent: for every id in the table and every payload, the second of two
  identical updates returns the response that the first returned and leaves the database
  that the first left. That response is a success when the id fits its column and the
  database accepts the payload.
\<close>

theorem update_idempotent:
  "(movie_id \<in> set (ids (movies db)) \<longrightarrow>
      update_movie movie_id updated_movie (snd (update_movie movie_id updated_movie db)) =
        update_movie movie_id updated_movie db \<and>
      (int4 movie_id \<and> movie_accepted updated_movie \<longrightarrow>
         (\<exists>movie. fst (update_movie movie_id updated_movie db) = Inr movie))) \<and>
   (genre_id \<in> set (ids (genres db)) \<longrightarrow>
      update_genre genre_id updated_genre (snd (update_genre genre_id updated_genre db)) =
        update_genre genre_id updated_genre db \<and>
      (int4 genre_id \<and> genre_accepted updated_genre \<longrightarrow>
         (\<exists>genre. fst (update_genre genre_id updated_genre db) = Inr genre)))"
  by (simp add: update_movie_eq update_genre_eq execute_update_twice movie_accepted_def
      genre_accepted_def)

theorem update_idempotent_witness:
  "1 \<in> set (ids (movies drama_db)) \<and> int4 1 \<and> movie_accepted dune \<and>
   update_movie 1 dune (snd (update_movie 1 dune drama_db)) = update_movie 1 dune drama_db \<and>
   (\<exists>movie. fst (update_movie 1 dune drama_db) = Inr movie) \<and>
   1 \<in> set (ids (genres drama_db)) \<and> genre_accepted drama \<and>
   update_genre 1 drama (snd (update_genre 1 drama drama_db)) =
     update_genre 1 drama drama_db \<and>
   (\<exists>genre. fst (update_genre 1 drama drama_db) = Inr genre)"
proof -
  have m: "1 \<in> set (ids (movies drama_db))" by (simp add: drama_db_def dune_db_def ids_def)
  have g: "1 \<in> set (ids (genres drama_db))" by (simp add: drama_db_def ids_def)
  have i: "int4 1" by (simp add: int4_def)
  have a: "movie_accepted dune" "genre_accepted drama"
    by (simp_all add: movie_accepted_def genre_accepted_def dune_def drama_def int4_def
        text_ok_def)
  show ?thesis
    using m g i a
      update_idempotent [where movie_id = 1 and genre_id = 1 and db = drama_db
        and updated_movie = dune and updated_genre = drama]
    by simp
qed

subsection \<open>Delete\<close>

lemma deleted_absent:
  "int4 k \<Longrightarrow> find (\<lambda>r. row_id r = k) (rows (snd (execute_delete t k))) = None"
  by (simp add: execute_delete_def find_None_iff)

text \<open>
  C6. After a successful delete, get-by-id of the same id raises the 404 "not found"
  exception, and no object of the list returned by the list operation has that id.
\<close>

theorem read_after_delete:
  "(fst (delete_movie movie_id db) = Inr deleted \<longrightarrow>
      fst (read_movie movie_id (snd (delete_movie movie_id db))) =
        Inl (HTTPException 404 ''Movie not found'') \<and>
      (\<exists>listed. fst (read_movies (snd (delete_movie movie_id db))) = Inr listed \<and>
         movie_id \<notin> set (map Movie.id listed))) \<and>
   (fst (delete_genre genre_id db) = Inr deleted_genre \<longrightarrow>
      fst (read_genre genre_id (snd (delete_genre genre_id db))) =
        Inl (HTTPException 404 ''Genre not found'') \<and>
      (\<exists>listed. fst (read_genres (snd (delete_genre genre_id db))) = Inr listed \<and>
         genre_id \<notin> set (map Genre.id listed)))"
proof -
  have lm: "int4 movie_id \<Longrightarrow>
      movie_id \<notin> row_id ` set (fetch (snd (execute_delete (movies db) movie_id)))"
    by (auto simp: fetch_def execute_delete_def)
  have lg: "int4 genre_id \<Longrightarrow>
      genre_id \<notin> row_id ` set (fetch (snd (execute_delete (genres db) genre_id)))"
    by (auto simp: fetch_def execute_delete_def)
  show ?thesis
    using lm lg
    by (simp add: delete_movie_eq delete_genre_eq read_movie_eq read_genre_eq
        read_movies_def read_genres_def image_image deleted_absent)
qed

theorem read_after_delete_witness:
  "fst (delete_movie 1 drama_db) = Inr [(''message'', ''Movie deleted'')] \<and>
   fst (read_movie 1 (snd (delete_movie 1 drama_db))) =
     Inl (HTTPException 404 ''Movie not found'') \<and>
   fst (delete_genre 1 drama_db) = Inr [(''message'', ''Genre deleted'')] \<and>
   fst (read_genre 1 (snd (delete_genre 1 drama_db))) =
     Inl (HTTPException 404 ''Genre not found'')"
proof -
  have m: "fst (delete_movie 1 drama_db) = Inr [(''message'', ''Movie deleted'')]"
    by (simp add: delete_movie_eq drama_db_def dune_db_def ids_def int4_def)
  have g: "fst (delete_genre 1 drama_db) = Inr [(''message'', ''Genre deleted'')]"
    by (simp add: delete_genre_eq drama_db_def ids_def int4_def)
  show ?thesis
    using m g
      read_after_delete [where movie_id = 1 and genre_id = 1 and db = drama_db
        and deleted = "[(''message'', ''Movie deleted'')]"
        and deleted_genre = "[(''message'', ''Genre deleted'')]"]
    by simp
qed

subsection \<open>List\<close>

text \<open>
  C7. In every state of the table, the list operation returns, with success, a sequence
  that has one object for each row of the table, the object at each position holding the
  values of the row at that position; its length is the number of rows, and it is the
  empty sequence when the table is empty. The database is left as it was.
\<close>

theorem list_returns_all_rows:
  "(\<exists>listed. read_movies db = (Inr listed, db) \<and>
      length listed = length (rows (movies db)) \<and>
      (\<forall>i < length listed.
         listed ! i =
           \<lparr>MovieBase.name = row_name (rows (movies db) ! i),
            MovieBase.description = row_description (rows (movies db) ! i),
            MovieBase.popularity = row_popularity (rows (movies db) ! i),
            Movie.id = row_id (rows (movies db) ! i)\<rparr>) \<and>
      (rows (movies db) = [] \<longrightarrow> listed = [])) \<and>
   (\<exists>listed. read_genres db = (Inr listed, db) \<and>
      length listed = length (rows (genres db)) \<and>
      (\<forall>i < length listed.
         listed ! i =
           \<lparr>GenreBase.name = row_name (rows (genres db) ! i),
            GenreBase.description = row_description (rows (genres db) ! i),
            GenreBase.popularity = row_popularity (rows (genres db) ! i),
            Genre.id = row_id (rows (genres db) ! i)\<rparr>) \<and>
      (rows (genres db) = [] \<longrightarrow> listed = []))"
  by (simp add: read_movies_def read_genres_def fetch_def)

theorem list_returns_all_rows_witness:
  "read_movies dune_db =
     (Inr [\<lparr>MovieBase.name = ''Dune'', MovieBase.description = ''Sci-fi epic'',
            MovieBase.popularity = 95, Movie.id = 1\<rparr>], dune_db) \<and>
   rows (genres dune_db) = [] \<and> read_genres dune_db = (Inr [], dune_db)"
proof -
  have m: "rows (movies dune_db) =
      [\<lparr>row_id = 1, row_name = ''Dune'', row_description = ''Sci-fi epic'',
        row_popularity = 95\<rparr>]"
    by (simp add: dune_db_def)
  have g: "rows (genres dune_db) = []" by (simp add: dune_db_def)
  from list_returns_all_rows [of dune_db]
  obtain ms gs where ms: "read_movies dune_db = (Inr ms, dune_db)"
    and len: "length ms = length (rows (movies dune_db))"
    and nth: "\<forall>i < length ms.
         ms ! i =
           \<lparr>MovieBase.name = row_name (rows (movies dune_db) ! i),
            MovieBase.description = row_description (rows (movies dune_db) ! i),
            MovieBase.popularity = row_popularity (rows (movies dune_db) ! i),
            Movie.id = row_id (rows (movies dune_db) ! i)\<rparr>"
    and gs: "read_genres dune_db = (Inr gs, dune_db)"
    and empty: "rows (genres dune_db) = [] \<longrightarrow> gs = []"
    by blast
  from len m obtain x where x: "ms = [x]"
    by (cases ms) auto
  with nth m have "x = \<lparr>MovieBase.name = ''Dune'', MovieBase.description = ''Sci-fi epic'',
            MovieBase.popularity = 95, Movie.id = 1\<rparr>"
    by simp
  with x ms gs empty g show ?thesis by simp
qed

subsection \<open>The genre routes\<close>

lemma exchange_tables [simp]:
  "movies (exchange db) = genres db" "genres (exchange db) = movies db"
  "exchange (exchange db) = db"
  "exchange (exchange db\<lparr>movies := t\<rparr>) = db\<lparr>genres := t\<rparr>"
  by (simp_all add: exchange_def)

lemma genre_texts [simp]:
  "genre_text ''Movie not found'' = ''Genre not found''"
  "genre_text ''Movie deleted'' = ''Genre deleted''"
  by (simp_all add: genre_text_def)

lemma as_genre_extend [simp]:
  "as_genre (MovieBase.extend (movie_payload genre) (Movie.fields k)) =
   GenreBase.extend genre (Genre.fields k)"
  by (simp add: as_genre_def movie_payload_def MovieBase.defs Movie.defs GenreBase.defs
      Genre.defs)

lemma movie_payload_fields [simp]:
  "MovieBase.name (movie_payload genre) = GenreBase.name genre"
  "MovieBase.description (movie_payload genre) = GenreBase.description genre"
  "MovieBase.popularity (movie_payload genre) = GenreBase.popularity genre"
  by (simp_all add: movie_payload_def)

text \<open>
  C9. Each of the five genre handlers returns, for every input and every database, what
  the movie handler of the same route returns when it is run on the genres table, with
  the payload read as a Genre and with Genre in place of Movie in the messages; it leaves
  in the genres table what the movie handler leaves in the table it was run on.
\<close>

theorem genre_routes_mirror_movie_routes:
  "read_genres db = substituted (map as_genre) (read_movies (exchange db)) \<and>
   read_genre id' db = substituted as_genre (read_movie id' (exchange db)) \<and>
   create_genre genre db =
     substituted as_genre (create_movie (movie_payload genre) (exchange db)) \<and>
   update_genre genre_id updated_genre db =
     substituted as_genre (update_movie genre_id (movie_payload updated_genre) (exchange db)) \<and>
   delete_genre genre_id db = substituted genre_message (delete_movie genre_id (exchange db))"
proof (intro conjI)
  show "read_genres db = substituted (map as_genre) (read_movies (exchange db))"
    by (simp add: read_genres_def read_movies_def substituted_def as_genre_def)
  show "read_genre id' db = substituted as_genre (read_movie id' (exchange db))"
    by (simp add: read_genre_eq read_movie_eq substituted_def as_genre_def
        split: option.splits)
  show "create_genre genre db =
      substituted as_genre (create_movie (movie_payload genre) (exchange db))"
    by (auto simp: create_genre_def create_movie_def substituted_def
        split: prod.splits sum.splits dest: insert_fails)
  show "update_genre genre_id updated_genre db =
      substituted as_genre (update_movie genre_id (movie_payload updated_genre) (exchange db))"
    by (simp add: update_genre_eq update_movie_eq substituted_def)
  show "delete_genre genre_id db =
      substituted genre_message (delete_movie genre_id (exchange db))"
    by (simp add: delete_genre_eq delete_movie_eq substituted_def genre_message_def)
qed

subsection \<open>The rows an operation affects\<close>













text \<open>
  Without the primary key the bound fails: on a table that holds two rows with the same
  id, one update overwrites both.
\<close>

lemma update_without_primary_key:
  "rows_affected
     \<lparr>rows = [\<lparr>row_id = 1, row_name = ''a'', row_description = ''b'', row_popularity = 0\<rparr>,
              \<lparr>row_id = 1, row_name = ''c'', row_description = ''d'', row_popularity = 0\<rparr>],
      next_id = 2\<rparr>
     (snd (execute_update
       \<lparr>rows = [\<lparr>row_id = 1, row_name = ''a'', row_description = ''b'', row_popularity = 0\<rparr>,
                \<lparr>row_id = 1, row_name = ''c'', row_description = ''d'', row_popularity = 0\<rparr>],
        next_id = 2\<rparr> ''Dune'' ''Updated'' 98 1)) = 2"
  by (simp add: execute_update_def rows_affected_def rows_removed_def rows_added_def
      int4_def text_ok_def)

end
